theory Spec2Isabelle
  imports Complex_Main "HOL-Library.AList"
begin

section \<open>Values shared by the services\<close>

text \<open>
  Strings are lists of code units below 256. The numbers of a parsed JSON text are
  modelled as real numbers; where the code computes with numbers, in \<^verbatim>\<open>convert\<close>, their
  type and their arithmetic are parameters of the model. Objects that the code uses as
  dictionaries (\<^verbatim>\<open>Record<string, ...>\<close>, the bodies of JSON responses) are modelled by
  their own string-keyed entries, as association lists in insertion order. The prototype
  of these objects is \<^verbatim>\<open>Object.prototype\<close>: a read of a key sees its members, and a
  write of the key \<^verbatim>\<open>__proto__\<close> reaches its setter.
\<close>

text \<open>The names of the members that every object inherits from \<^verbatim>\<open>Object.prototype\<close>.\<close>

definition Object_prototype_keys :: "string list" where
  "Object_prototype_keys =
     [''constructor'', ''__defineGetter__'', ''__defineSetter__'', ''hasOwnProperty'',
      ''__lookupGetter__'', ''__lookupSetter__'', ''isPrototypeOf'', ''propertyIsEnumerable'',
      ''toString'', ''valueOf'', ''__proto__'', ''toLocaleString'']"

text \<open>
  \<^verbatim>\<open>obj[key]\<close>: the entry of the object itself, else the inherited member (a function,
  or for \<^verbatim>\<open>__proto__\<close> the prototype object), else \<^verbatim>\<open>undefined\<close>.
\<close>

datatype 'a property_value = Own 'a | Inherited | Undefined

definition get_property :: "(string \<times> 'a) list \<Rightarrow> string \<Rightarrow> 'a property_value" where
  "get_property obj key =
     (case map_of obj key of
        Some v \<Rightarrow> Own v
      | None \<Rightarrow> if key \<in> set Object_prototype_keys then Inherited else Undefined)"

text \<open>
  \<^verbatim>\<open>obj[key] = v\<close> for an object \<open>v\<close>: the key \<^verbatim>\<open>__proto__\<close> is the accessor of
  \<^verbatim>\<open>Object.prototype\<close>, whose setter makes \<open>v\<close> the prototype of the object and adds no
  entry; every other key becomes an entry, and an entry that exists keeps its position.
\<close>

definition set_property :: "string \<Rightarrow> 'a \<Rightarrow> (string \<times> 'a) list \<Rightarrow> (string \<times> 'a) list" where
  "set_property key v obj = (if key = ''__proto__'' then obj else AList.update key v obj)"

text \<open>
  Exceptions are values. \<open>BadRequestException\<close> and \<open>NotFoundException\<close> are the two
  NestJS exceptions the services throw, \<open>Error\<close> is the plain \<^verbatim>\<open>new Error(...)\<close> of
  \<^verbatim>\<open>validateResponseFormat\<close>, and \<open>TypeError\<close> is what the runtime throws on a property
  read of \<^verbatim>\<open>undefined\<close> or \<^verbatim>\<open>null\<close> or on iterating \<^verbatim>\<open>undefined\<close>. Errors coming from
  the providers (the OpenAI client, \<^verbatim>\<open>fetch\<close>) and from \<^verbatim>\<open>JSON.parse\<close> are whatever the
  environment returns.
\<close>

datatype error =
    BadRequestException string
  | NotFoundException string
  | Error string
  | TypeError string
  | SyntaxError string

fun message :: "error \<Rightarrow> string" where
  "message (BadRequestException m) = m"
| "message (NotFoundException m) = m"
| "message (Error m) = m"
| "message (TypeError m) = m"
| "message (SyntaxError m) = m"

text \<open>The values \<^verbatim>\<open>JSON.parse\<close> produces.\<close>

datatype json =
    JNull
  | JBool bool
  | JNumber real
  | JString string
  | JArray "json list"
  | JObject "(string \<times> json) list"

text \<open>\<^verbatim>\<open>Array.prototype.join\<close> on an array of strings.\<close>

fun join :: "string \<Rightarrow> string list \<Rightarrow> string" where
  "join sep [] = []"
| "join sep [x] = x"
| "join sep (x # y # ys) = x @ sep @ join sep (y # ys)"

text \<open>The decimal rendering of a non-negative integer in a template string.\<close>

fun string_of_nat :: "nat \<Rightarrow> string" where
  "string_of_nat n =
     (if n < 10 then [char_of (48 + n)]
      else string_of_nat (n div 10) @ [char_of (48 + n mod 10)])"

text \<open>
  \<^verbatim>\<open>String.prototype.trim\<close>: white space and line terminators are removed at both ends
  (tab, line feed, vertical tab, form feed, carriage return, space, no-break space).
\<close>

definition is_white_space :: "char \<Rightarrow> bool" where
  "is_white_space c \<longleftrightarrow> of_char c \<in> {9::nat, 10, 11, 12, 13, 32, 160}"

definition trim :: "string \<Rightarrow> string" where
  "trim s = rev (dropWhile is_white_space (rev (dropWhile is_white_space s)))"

text \<open>A value of type \<^verbatim>\<open>string | null\<close> inside a template string.\<close>

fun template_string :: "string option \<Rightarrow> string" where
  "template_string None = ''null''"
| "template_string (Some s) = s"

section \<open>The tool registry (npl.service.ts)\<close>

datatype param_type = string_type | number_type

record NPLFunctionCallingParams =
  name :: string
  description :: string
  type :: param_type
  required :: bool

text \<open>
  A callback is an asynchronous function of the parsed arguments. It is modelled as a
  function on an explicit state of the outside world \<open>'w\<close>, returning its string result or
  the error it rejects with.
\<close>

type_synonym 'w NPLFunctionCallingCallback = "json \<Rightarrow> 'w \<Rightarrow> (error + string) \<times> 'w"

record 'w NPLFunction =
  name :: string
  description :: string
  callback :: "'w NPLFunctionCallingCallback"
  params :: "NPLFunctionCallingParams list"

section \<open>The tool schema built by functionCalling (npl.service.ts, lines 39 to 67)\<close>

record property =
  type :: param_type
  description :: string

record parameters =
  type :: string
  properties :: "(string \<times> property) list"
  required :: "string list"
  additionalProperties :: bool

record function_object =
  name :: string
  description :: string
  parameters :: parameters

text \<open>\<open>FunctionTool f\<close> is the object \<^verbatim>\<open>{ type: "function", function: f }\<close>.\<close>

datatype tool = FunctionTool (the_function: function_object)

text \<open>
  The body of \<^verbatim>\<open>params.forEach\<close>: the state is the pair of the array \<^verbatim>\<open>requiredParams\<close>
  and the accumulator \<^verbatim>\<open>acc\<close>.
\<close>

fun forEach_param ::
  "NPLFunctionCallingParams \<Rightarrow> string list \<times> (string \<times> property) list
     \<Rightarrow> string list \<times> (string \<times> property) list" where
  "forEach_param param (requiredParams, acc) =
     ((if NPLFunctionCallingParams.required param
       then requiredParams @ [NPLFunctionCallingParams.name param] else requiredParams),
      set_property (NPLFunctionCallingParams.name param)
        \<lparr>property.type = NPLFunctionCallingParams.type param,
         property.description = NPLFunctionCallingParams.description param\<rparr> acc)"

text \<open>\<^verbatim>\<open>callbacks.reduce(...)\<close>, with \<^verbatim>\<open>requiredParams\<close> starting empty and \<^verbatim>\<open>acc\<close> as \<^verbatim>\<open>{}\<close>.\<close>

definition reduce_params ::
  "'w NPLFunction list \<Rightarrow> string list \<times> (string \<times> property) list" where
  "reduce_params callbacks = fold (\<lambda>cb st. fold forEach_param (params cb) st) callbacks ([], [])"

definition requiredParams :: "'w NPLFunction list \<Rightarrow> string list" where
  "requiredParams callbacks = fst (reduce_params callbacks)"

definition properties_of :: "'w NPLFunction list \<Rightarrow> (string \<times> property) list" where
  "properties_of callbacks = snd (reduce_params callbacks)"

definition functions_schema :: "'w NPLFunction list \<Rightarrow> tool list" where
  "functions_schema callbacks =
     map (\<lambda>cb. FunctionTool
        \<lparr>function_object.name = NPLFunction.name cb,
         function_object.description = NPLFunction.description cb,
         parameters =
           \<lparr>parameters.type = ''object'',
            properties = properties_of callbacks,
            parameters.required = requiredParams callbacks,
            additionalProperties = False\<rparr>\<rparr>) callbacks"

text \<open>The enumeration \<^verbatim>\<open>functionList\<close>: \<^verbatim>\<open>"1. f(a, b) 2. g(c)"\<close>.\<close>

definition functionList :: "'w NPLFunction list \<Rightarrow> string" where
  "functionList callbacks =
     join '' '' (map (\<lambda>(index, fn).
        string_of_nat (index + 1) @ ''. '' @ NPLFunction.name fn @ ''(''
          @ join '', '' (map NPLFunctionCallingParams.name (params fn)) @ '')'')
        (enumerate 0 callbacks))"




section \<open>The chat completion interface\<close>

text \<open>
  \<open>ToolCall i n a\<close> is a requested call
  \<^verbatim>\<open>{ id: i, function: { name: n, arguments: a } }\<close>.
\<close>

datatype tool_call =
  ToolCall (call_id: string) (function_name: string) (function_arguments: string)

text \<open>The message of a completion choice: \<^verbatim>\<open>content\<close> may be null, \<^verbatim>\<open>tool_calls\<close> may be absent.\<close>

record chat_message =
  content :: "string option"
  tool_calls :: "tool_call list option"

datatype choice = Choice (finish_reason: string) (choice_message: chat_message)

text \<open>
  The members of the array \<^verbatim>\<open>messages\<close>: the literals with role system, user and tool
  that the service builds, and the assistant message pushed as the provider returned it.
\<close>

datatype ChatCompletionMessageParam =
    SystemMessage string
  | UserMessage string
  | AssistantMessage chat_message
  | ToolMessage string string

text \<open>
  \<^verbatim>\<open>this.client.chat.completions.create({ model, messages, tools })\<close>: the provider is a
  function on the state of the outside world that returns the array \<^verbatim>\<open>choices\<close> of the
  response, or the error the call rejects with. \<^verbatim>\<open>JSON.parse\<close> is a parameter too.
\<close>

type_synonym 'w create =
  "ChatCompletionMessageParam list \<Rightarrow> tool list option \<Rightarrow> 'w \<Rightarrow> (error + choice list) \<times> 'w"

type_synonym JSON_parse = "string \<Rightarrow> error + json"

text \<open>
  What a run does to the outside is recorded in a trace: the completion calls with the
  messages and tools they send, and the callback invocations with the request they serve
  and the parsed arguments.
\<close>

datatype event =
    CompletionCall "ChatCompletionMessageParam list" "tool list option"
  | CallbackCall tool_call json

record 'w run =
  messages :: "ChatCompletionMessageParam list"
  trace :: "event list"
  world :: 'w

section \<open>functionCalling (npl.service.ts, lines 38 to 143)\<close>

definition getCallbackByFunctionName ::
  "'w NPLFunction list \<Rightarrow> string \<Rightarrow> error + 'w NPLFunctionCallingCallback" where
  "getCallbackByFunctionName callbacks functionName =
     (case find (\<lambda>cb. NPLFunction.name cb = functionName) callbacks of
        None \<Rightarrow> Inl (BadRequestException (''Function '' @ functionName @ '' not found''))
      | Some cb \<Rightarrow> Inr (callback cb))"

text \<open>
  The loop \<^verbatim>\<open>for await (const tool of tools)\<close>: the callback is looked up, the arguments
  are parsed, the callback is awaited, and its result is pushed as a tool message.
\<close>

fun for_tools ::
  "JSON_parse \<Rightarrow> 'w NPLFunction list \<Rightarrow> tool_call list \<Rightarrow> 'w run \<Rightarrow> (error + unit) \<times> 'w run" where
  "for_tools parse callbacks [] st = (Inr (), st)"
| "for_tools parse callbacks (tool # tools) st =
     (case getCallbackByFunctionName callbacks (function_name tool) of
        Inl e \<Rightarrow> (Inl e, st)
      | Inr the_callback \<Rightarrow>
          (case parse (function_arguments tool) of
             Inl e \<Rightarrow> (Inl e, st)
           | Inr args \<Rightarrow>
               (case the_callback args (world st) of
                  (Inl e, w) \<Rightarrow>
                    (Inl e, st\<lparr>trace := trace st @ [CallbackCall tool args], world := w\<rparr>)
                | (Inr functionResult, w) \<Rightarrow>
                    for_tools parse callbacks tools
                      (st\<lparr>messages := messages st @ [ToolMessage functionResult (call_id tool)],
                          trace := trace st @ [CallbackCall tool args],
                          world := w\<rparr>))))"

definition initial_messages :: "string \<Rightarrow> 'w NPLFunction list \<Rightarrow> ChatCompletionMessageParam list" where
  "initial_messages input callbacks =
     [SystemMessage (''You are a helpful customer support assistant. Use the following functions: ''
        @ functionList callbacks),
      UserMessage input]"

definition nudge :: "'w NPLFunction list \<Rightarrow> ChatCompletionMessageParam" where
  "nudge callbacks =
     SystemMessage (''Don't ask the user, always do if there is some function list ''
       @ functionList callbacks)"

text \<open>
  The body of the \<^verbatim>\<open>while\<close> loop, for the top choice \<open>c\<close> of the current response. When
  \<^verbatim>\<open>tool_calls\<close> is absent, iterating it throws after the assistant message was pushed.
\<close>

definition while_body ::
  "JSON_parse \<Rightarrow> 'w create \<Rightarrow> 'w NPLFunction list \<Rightarrow> choice \<Rightarrow> 'w run
     \<Rightarrow> (error + choice list) \<times> 'w run" where
  "while_body parse create callbacks c st =
     (let st1 = st\<lparr>messages := messages st @ [AssistantMessage (choice_message c)]\<rparr> in
      case tool_calls (choice_message c) of
        None \<Rightarrow> (Inl (TypeError ''tools is not async iterable''), st1)
      | Some tools \<Rightarrow>
          (case for_tools parse callbacks tools st1 of
             (Inl e, st2) \<Rightarrow> (Inl e, st2)
           | (Inr u, st2) \<Rightarrow>
               (let st3 = st2\<lparr>messages := messages st2 @ [nudge callbacks]\<rparr> in
                case create (messages st3) (Some (functions_schema callbacks)) (world st3) of
                  (r, w) \<Rightarrow>
                    (r, st3\<lparr>trace := trace st3
                               @ [CompletionCall (messages st3) (Some (functions_schema callbacks))],
                            world := w\<rparr>))))"

text \<open>
  The \<^verbatim>\<open>while\<close> loop. Nothing bounds the number of rounds, so the loop takes fuel, one unit
  for each evaluation of its condition; \<open>None\<close> is a run that has not ended within the fuel.
  Reading \<^verbatim>\<open>choices[0].finish_reason\<close> of an empty \<^verbatim>\<open>choices\<close> throws.
\<close>

fun while_tool_calls ::
  "JSON_parse \<Rightarrow> 'w create \<Rightarrow> 'w NPLFunction list \<Rightarrow> nat \<Rightarrow> choice list \<Rightarrow> 'w run
     \<Rightarrow> ((error + choice list) \<times> 'w run) option" where
  "while_tool_calls parse create callbacks 0 llmResponse st = None"
| "while_tool_calls parse create callbacks (Suc fuel) llmResponse st =
     (case llmResponse of
        [] \<Rightarrow> Some (Inl (TypeError ''Cannot read properties of undefined (reading 'finish_reason')''), st)
      | c # cs \<Rightarrow>
          if finish_reason c = ''tool_calls'' then
            (case while_body parse create callbacks c st of
               (Inl e, st') \<Rightarrow> Some (Inl e, st')
             | (Inr llmResponse', st') \<Rightarrow>
                 while_tool_calls parse create callbacks fuel llmResponse' st')
          else Some (Inr llmResponse, st))"

definition finalMessage :: "string \<Rightarrow> string option \<Rightarrow> ChatCompletionMessageParam list" where
  \<open>finalMessage input result =
     [UserMessage input,
      SystemMessage (''A user asks: "'' @ input @ ''". The result was: '' @ template_string result
        @ ''. Formulate a final response.'')]\<close>

text \<open>
  Lines 108 to 121: the finalization completion and the returned value. With an empty
  \<^verbatim>\<open>choices\<close> the optional chain yields \<^verbatim>\<open>undefined\<close> (\<open>None\<close>); with a null content,
  calling \<^verbatim>\<open>trim\<close> throws.
\<close>

definition finalize ::
  "'w create \<Rightarrow> string \<Rightarrow> choice list \<Rightarrow> 'w run \<Rightarrow> (error + string option) \<times> 'w run" where
  "finalize create input llmResponse st =
     (case llmResponse of
        [] \<Rightarrow> (Inl (TypeError ''Cannot read properties of undefined (reading 'message')''), st)
      | c # cs \<Rightarrow>
          (case create (finalMessage input (content (choice_message c))) None (world st) of
             (r, w) \<Rightarrow>
               (let st' = st\<lparr>trace := trace st
                             @ [CompletionCall (finalMessage input (content (choice_message c))) None],
                           world := w\<rparr> in
                case r of
                  Inl e \<Rightarrow> (Inl e, st')
                | Inr finalResponse \<Rightarrow>
                    (case finalResponse of
                       [] \<Rightarrow> (Inr None, st')
                     | f # fs \<Rightarrow>
                         (case content (choice_message f) of
                            None \<Rightarrow>
                              (Inl (TypeError ''Cannot read properties of null (reading 'trim')''), st')
                          | Some s \<Rightarrow> (Inr (Some (trim s)), st'))))))"

text \<open>The \<^verbatim>\<open>try\<close> block from the \<^verbatim>\<open>while\<close> loop on, for the current response and state.\<close>

definition try_from ::
  "JSON_parse \<Rightarrow> 'w create \<Rightarrow> nat \<Rightarrow> string \<Rightarrow> 'w NPLFunction list \<Rightarrow> choice list \<Rightarrow> 'w run
     \<Rightarrow> ((error + string option) \<times> 'w run) option" where
  "try_from parse create fuel input callbacks llmResponse st =
     (case while_tool_calls parse create callbacks fuel llmResponse st of
        None \<Rightarrow> None
      | Some (Inl e, st') \<Rightarrow> Some (Inl e, st')
      | Some (Inr llmResponse', st') \<Rightarrow> Some (finalize create input llmResponse' st'))"

text \<open>The whole \<^verbatim>\<open>try\<close> block, from the first completion call.\<close>

definition functionCalling_try ::
  "JSON_parse \<Rightarrow> 'w create \<Rightarrow> nat \<Rightarrow> string \<Rightarrow> 'w NPLFunction list \<Rightarrow> 'w
     \<Rightarrow> ((error + string option) \<times> 'w run) option" where
  "functionCalling_try parse create fuel input callbacks w =
     (case create (initial_messages input callbacks) (Some (functions_schema callbacks)) w of
        (r, w1) \<Rightarrow>
          (let st = \<lparr>messages = initial_messages input callbacks,
                     trace = [CompletionCall (initial_messages input callbacks)
                                (Some (functions_schema callbacks))],
                     world = w1\<rparr> in
           case r of
             Inl e \<Rightarrow> Some (Inl e, st)
           | Inr llmResponse \<Rightarrow> try_from parse create fuel input callbacks llmResponse st))"

text \<open>The \<^verbatim>\<open>catch\<close> clause: every error is rethrown as one \<open>BadRequestException\<close>.\<close>

definition catch_functionCalling :: "error + 'a \<Rightarrow> error + 'a" where
  "catch_functionCalling r =
     (case r of
        Inl error \<Rightarrow> Inl (BadRequestException (''Function calling error: '' @ message error))
      | Inr v \<Rightarrow> Inr v)"

definition functionCalling ::
  "JSON_parse \<Rightarrow> 'w create \<Rightarrow> nat \<Rightarrow> string \<Rightarrow> 'w NPLFunction list \<Rightarrow> 'w
     \<Rightarrow> ((error + string option) \<times> 'w run) option" where
  "functionCalling parse create fuel input callbacks w =
     map_option (\<lambda>(r, st). (catch_functionCalling r, st))
       (functionCalling_try parse create fuel input callbacks w)"

text \<open>The run continued from the \<^verbatim>\<open>while\<close> loop of any round, with its \<^verbatim>\<open>catch\<close> clause.\<close>

definition functionCalling_from ::
  "JSON_parse \<Rightarrow> 'w create \<Rightarrow> nat \<Rightarrow> string \<Rightarrow> 'w NPLFunction list \<Rightarrow> choice list \<Rightarrow> 'w run
     \<Rightarrow> ((error + string option) \<times> 'w run) option" where
  "functionCalling_from parse create fuel input callbacks llmResponse st =
     map_option (\<lambda>(r, st). (catch_functionCalling r, st))
       (try_from parse create fuel input callbacks llmResponse st)"


section \<open>searchItems and validateResponseFormat (npl.service.ts, lines 154 to 200)\<close>

text \<open>\<^verbatim>\<open>Number.isInteger\<close> on a parsed value, and the integer an integral number stands for.\<close>

fun isInteger :: "json \<Rightarrow> bool" where
  "isInteger (JNumber x) = (x \<in> \<int>)"
| "isInteger v = False"

fun integer_of :: "json \<Rightarrow> int" where
  "integer_of (JNumber x) = \<lfloor>x\<rfloor>"
| "integer_of v = 0"

text \<open>
  The \<^verbatim>\<open>try\<close> block of \<^verbatim>\<open>validateResponseFormat\<close>. \<^verbatim>\<open>JSON.parse(null)\<close> parses the text
  \<^verbatim>\<open>null\<close>. An array of integers is returned as a list of integers.
\<close>

definition validateResponseFormat_try :: "JSON_parse \<Rightarrow> string option \<Rightarrow> error + int list" where
  "validateResponseFormat_try parse responseMessage =
     (case (case responseMessage of None \<Rightarrow> Inr JNull | Some s \<Rightarrow> parse s) of
        Inl e \<Rightarrow> Inl e
      | Inr relevantIndices \<Rightarrow>
          (case relevantIndices of
             JArray xs \<Rightarrow>
               if \<not> list_all isInteger xs
               then Inl (Error (''Invalid response format: '' @ template_string responseMessage))
               else Inr (map integer_of xs)
           | v \<Rightarrow> Inl (Error (''Invalid response format: '' @ template_string responseMessage))))"

definition validateResponseFormat :: "JSON_parse \<Rightarrow> string option \<Rightarrow> error + int list" where
  "validateResponseFormat parse responseMessage =
     (case validateResponseFormat_try parse responseMessage of
        Inl error \<Rightarrow>
          Inl (BadRequestException
                (''Invalid response format from search: '' @ template_string responseMessage))
      | Inr relevantIndices \<Rightarrow> Inr relevantIndices)"

definition enumeratedItems :: "string list \<Rightarrow> string" where
  "enumeratedItems items =
     join ''\<newline>'' (map (\<lambda>(index, item). string_of_nat (index + 1) @ ''. '' @ item)
       (enumerate 0 items))"

definition search_messages :: "string \<Rightarrow> string list \<Rightarrow> string \<Rightarrow> ChatCompletionMessageParam list" where
  \<open>search_messages searchTerm items constraints =
     [UserMessage (''Please find items related to "'' @ searchTerm @ ''". ''
        @ (if constraints \<noteq> [] then ''with the following constraints '' @ constraints else [])),
      SystemMessage (''You are a helpful assistant. Based on the user's query, return a JSON array containing the indices without any decoration of the relevant items from the following list:\<newline>''
        @ enumeratedItems items)]\<close>

text \<open>
  \<^verbatim>\<open>searchItems\<close>: every error of its \<^verbatim>\<open>try\<close> block (a rejected completion, an empty
  \<^verbatim>\<open>choices\<close>, a failed validation) is caught and an empty array is returned.
\<close>

definition searchItems ::
  "JSON_parse \<Rightarrow> 'w create \<Rightarrow> string \<Rightarrow> string list \<Rightarrow> string \<Rightarrow> 'w \<Rightarrow> int list \<times> 'w" where
  "searchItems parse create searchTerm items constraints w =
     (case create (search_messages searchTerm items constraints) None w of
        (Inl error, w') \<Rightarrow> ([], w')
      | (Inr llmResponse, w') \<Rightarrow>
          (case llmResponse of
             [] \<Rightarrow> ([], w')
           | c # cs \<Rightarrow>
               (case validateResponseFormat parse (content (choice_message c)) of
                  Inl error \<Rightarrow> ([], w')
                | Inr relevantIndices \<Rightarrow> (relevantIndices, w'))))"

section \<open>ProductService.searchByName (product.service.ts, lines 59 to 74)\<close>

record Product =
  displayTitle :: string
  embeddingText :: string
  url :: string
  imageUrl :: string
  productType :: string
  discount :: real
  price :: real
  variants :: string
  createDate :: string

text \<open>
  \<^verbatim>\<open>xs[i]\<close> on an array, for an integer \<open>i\<close>: \<^verbatim>\<open>undefined\<close> (\<open>None\<close>) outside the array.
\<close>

definition array_get :: "'a list \<Rightarrow> int \<Rightarrow> 'a option" where
  "array_get xs i = (if 0 \<le> i \<and> i < int (length xs) then Some (xs ! nat i) else None)"

text \<open>
  \<^verbatim>\<open>JSON.stringify\<close> on an array whose elements are objects or \<^verbatim>\<open>undefined\<close>: an
  \<^verbatim>\<open>undefined\<close> element is written as \<^verbatim>\<open>null\<close>. The text of an object is a parameter.
\<close>

definition JSON_stringify :: "('a \<Rightarrow> string) \<Rightarrow> 'a option list \<Rightarrow> string" where
  "JSON_stringify stringify_object xs =
     ''['' @ join '','' (map (\<lambda>x. case x of None \<Rightarrow> ''null'' | Some v \<Rightarrow> stringify_object v) xs) @ '']''"

text \<open>The \<^verbatim>\<open>try\<close> block of \<^verbatim>\<open>searchByName\<close>, then the method with its \<^verbatim>\<open>catch\<close> clause.\<close>

definition searchByName_try ::
  "JSON_parse \<Rightarrow> 'w create \<Rightarrow> (Product \<Rightarrow> string) \<Rightarrow> Product list \<Rightarrow> string \<Rightarrow> 'w
     \<Rightarrow> (error + string) \<times> 'w" where
  "searchByName_try parse create stringify_object products productName w =
     (let items = map displayTitle products in
      case searchItems parse create productName items ''Must select 2 items.'' w of
        (indices, w') \<Rightarrow>
          if length indices = 0
          then (Inl (NotFoundException (''No products found for: '' @ productName)), w')
          else (let relevantProducts = map (\<lambda>index. array_get products (index - 1)) indices in
                (Inr (JSON_stringify stringify_object relevantProducts), w')))"

definition searchByName ::
  "JSON_parse \<Rightarrow> 'w create \<Rightarrow> (Product \<Rightarrow> string) \<Rightarrow> Product list \<Rightarrow> string \<Rightarrow> 'w
     \<Rightarrow> (error + string) \<times> 'w" where
  "searchByName parse create stringify_object products productName w =
     (case searchByName_try parse create stringify_object products productName w of
        (Inl error, w') \<Rightarrow>
          (Inl (BadRequestException (''Unable to search products: '' @ message error)), w')
      | (Inr r, w') \<Rightarrow> (Inr r, w'))"

section \<open>CurrencyService.convert (currency.service.ts)\<close>

text \<open>
  A response of \<^verbatim>\<open>fetch\<close>: the flag \<^verbatim>\<open>ok\<close> and the outcome of \<^verbatim>\<open>response.json()\<close>. The
  body of \<^verbatim>\<open>currencies.json\<close> maps a currency code to its name, the body of
  \<^verbatim>\<open>latest.json\<close> carries the table \<^verbatim>\<open>rates\<close> from a code to a number.
\<close>

record 'a response =
  ok :: bool
  json :: "error + 'a"

record 'n rates_data =
  rates :: "(string \<times> 'n) list"

type_synonym ('a, 'w) fetch = "string \<Rightarrow> 'w \<Rightarrow> (error + 'a response) \<times> 'w"

text \<open>
  The arithmetic of the numbers of the language is a parameter: the division and the
  multiplication of two numbers, and the operator \<^verbatim>\<open>!\<close> on a number (true of zero and of
  a number that is not a number). The type \<open>'n\<close> is the type of these numbers.
\<close>

record 'n number_ops =
  op_divide :: "'n \<Rightarrow> 'n \<Rightarrow> 'n"
  op_times :: "'n \<Rightarrow> 'n \<Rightarrow> 'n"
  op_not :: "'n \<Rightarrow> bool"

text \<open>
  The value of an arithmetic expression: a number computed from numbers, or \<open>NaN\<close> when
  an operand is not a number (an inherited member, \<^verbatim>\<open>undefined\<close>).
\<close>

datatype 'n js_number = Number 'n | NaN

text \<open>The operator \<^verbatim>\<open>!\<close> on a name read from an object and on a rate read from an object.\<close>

fun falsy_name :: "string property_value \<Rightarrow> bool" where
  "falsy_name (Own s) = (s = [])"
| "falsy_name Inherited = False"
| "falsy_name Undefined = True"

fun falsy_rate :: "'n number_ops \<Rightarrow> 'n property_value \<Rightarrow> bool" where
  "falsy_rate ops (Own x) = op_not ops x"
| "falsy_rate ops Inherited = False"
| "falsy_rate ops Undefined = True"

text \<open>\<^verbatim>\<open>(amount / rateFrom) * rateTo\<close> on the two values read from \<^verbatim>\<open>rates\<close>.\<close>

fun cross_rate :: "'n number_ops \<Rightarrow> 'n \<Rightarrow> 'n property_value \<Rightarrow> 'n property_value \<Rightarrow> 'n js_number" where
  "cross_rate ops amount (Own rateFrom) (Own rateTo) =
     Number (op_times ops (op_divide ops amount rateFrom) rateTo)"
| "cross_rate ops amount rateFrom rateTo = NaN"

definition convert ::
  "'n number_ops \<Rightarrow> ((string \<times> string) list, 'w) fetch \<Rightarrow> ('n rates_data, 'w) fetch \<Rightarrow> string
     \<Rightarrow> string \<Rightarrow> 'n \<Rightarrow> string \<Rightarrow> string \<Rightarrow> 'w \<Rightarrow> (error + 'n js_number) \<times> 'w" where
  \<open>convert ops fetch_currencies fetch_latest apiUrl apiId amount from to w =
     (case fetch_currencies (apiUrl @ ''/currencies.json'') w of
        (Inl e, w1) \<Rightarrow> (Inl e, w1)
      | (Inr response, w1) \<Rightarrow>
          if \<not> ok response then
            (Inl (BadRequestException (''CurrencyService: Unable to fetch the currency list. Please check the API endpoint: '' @ apiUrl)), w1)
          else
            (case json response of
               Inl e \<Rightarrow> (Inl e, w1)
             | Inr currencies \<Rightarrow>
                 if falsy_name (get_property currencies from)
                    \<or> falsy_name (get_property currencies to) then
                   (Inl (BadRequestException (''CurrencyService: Invalid currency code(s): "'' @ from @ ''" or "'' @ to @ ''". Please ensure both codes are valid.'')), w1)
                 else
                   (case fetch_latest (apiUrl @ ''/latest.json?app_id='' @ apiId) w1 of
                      (Inl e, w2) \<Rightarrow> (Inl e, w2)
                    | (Inr ratesResponse, w2) \<Rightarrow>
                        if \<not> ok ratesResponse then
                          (Inl (BadRequestException (''CurrencyService: Unable to fetch the latest exchange rates. Please check the API endpoint: '' @ apiUrl @ ''/latest.json?app_id='' @ apiId)), w2)
                        else
                          (case json ratesResponse of
                             Inl e \<Rightarrow> (Inl e, w2)
                           | Inr ratesData \<Rightarrow>
                               if falsy_rate ops (get_property (rates ratesData) from)
                                  \<or> falsy_rate ops (get_property (rates ratesData) to) then
                                 (Inl (BadRequestException (''CurrencyService: Exchange rate data not found for the currency code(s): "'' @ from @ ''" or "'' @ to @ ''". Please ensure both codes are valid.'')), w2)
                               else
                                 (Inr (cross_rate ops amount
                                         (get_property (rates ratesData) from)
                                         (get_property (rates ratesData) to)), w2)))))\<close>

section \<open>Example data\<close>

text \<open>
  The two tools of \<^verbatim>\<open>ChatbotService.chatbot\<close> (chatbot.service.ts, lines 39 to 76), with
  shortened descriptions and with callbacks that answer with a fixed text, and a tool that
  declares a parameter with the name of a parameter of \<^verbatim>\<open>searchProducts\<close>.
\<close>

definition convertCurrencies_tool :: "nat NPLFunction" where
  "convertCurrencies_tool =
     \<lparr>NPLFunction.name = ''convertCurrencies'',
      NPLFunction.description = ''Convert a specified amount from one currency to another'',
      callback = (\<lambda>args w. (Inr ''0.025'', w)),
      params =
        [\<lparr>NPLFunctionCallingParams.name = ''amount'',
          NPLFunctionCallingParams.description = ''Amount to convert (e.g., 100).'',
          NPLFunctionCallingParams.type = number_type,
          NPLFunctionCallingParams.required = True\<rparr>,
         \<lparr>NPLFunctionCallingParams.name = ''from'',
          NPLFunctionCallingParams.description = ''Currency code to convert from'',
          NPLFunctionCallingParams.type = string_type,
          NPLFunctionCallingParams.required = True\<rparr>,
         \<lparr>NPLFunctionCallingParams.name = ''to'',
          NPLFunctionCallingParams.description = ''Currency code to convert to'',
          NPLFunctionCallingParams.type = string_type,
          NPLFunctionCallingParams.required = True\<rparr>]\<rparr>"

definition searchProducts_tool :: "nat NPLFunction" where
  "searchProducts_tool =
     \<lparr>NPLFunction.name = ''searchProducts'',
      NPLFunction.description = ''Search for products in the inventory'',
      callback = (\<lambda>args w. (Inr ''[null]'', w)),
      params =
        [\<lparr>NPLFunctionCallingParams.name = ''name'',
          NPLFunctionCallingParams.description = ''Name of the product'',
          NPLFunctionCallingParams.type = string_type,
          NPLFunctionCallingParams.required = True\<rparr>]\<rparr>"

definition example_registry :: "nat NPLFunction list" where
  "example_registry = [convertCurrencies_tool, searchProducts_tool]"


text \<open>
  A parser that knows four texts, and a provider that answers from a script: the state
  of the world is the number of completions served so far.
\<close>

definition example_parse :: JSON_parse where
  "example_parse s =
     (if s = ''{}'' then Inr (JObject [])
      else if s = ''[2, 7]'' then Inr (JArray [JNumber 2, JNumber 7])
      else if s = ''[]'' then Inr (JArray [])
      else if s = ''[1.5]'' then Inr (JArray [JNumber (3 / 2)])
      else Inl (SyntaxError ''Unexpected token''))"

definition scripted :: "choice list list \<Rightarrow> nat create" where
  "scripted script msgs tools n =
     (if n < length script then Inr (script ! n) else Inl (Error ''Connection error.''), Suc n)"

definition text_choice :: "string \<Rightarrow> choice" where
  "text_choice s = Choice ''stop'' \<lparr>content = Some s, tool_calls = None\<rparr>"

definition two_calls :: "tool_call list" where
  "two_calls = [ToolCall ''call_1'' ''searchProducts'' ''{}'',
                ToolCall ''call_2'' ''convertCurrencies'' ''{}'']"

definition two_calls_choice :: choice where
  "two_calls_choice = Choice ''tool_calls'' \<lparr>content = None, tool_calls = Some two_calls\<rparr>"

definition example_run :: "nat run" where
  "example_run =
     \<lparr>messages = initial_messages ''How much is a watch in Euros?'' example_registry,
      trace = [CompletionCall (initial_messages ''How much is a watch in Euros?'' example_registry)
                 (Some (functions_schema example_registry))],
      world = 1\<rparr>"

definition unknown_call_choice :: choice where
  "unknown_call_choice =
     Choice ''tool_calls''
       \<lparr>content = None,
        tool_calls = Some ([ToolCall ''call_1'' ''searchProducts'' ''{}'']
                           @ ToolCall ''call_2'' ''deleteProducts'' ''{}''
                           # [ToolCall ''call_3'' ''convertCurrencies'' ''{}''])\<rparr>"

definition example_script :: "choice list list" where
  "example_script =
     [[two_calls_choice],
      [text_choice ''The watch costs 90 Euros''],
      [text_choice ''  It costs 90 Euros. '']]"

definition example_round :: "(error + choice list) \<times> nat run" where
  "example_round =
     while_body example_parse (scripted example_script) example_registry two_calls_choice
       example_run"

definition example_products :: "Product list" where
  "example_products =
     [\<lparr>displayTitle = ''iPhone 12'', embeddingText = [], url = [], imageUrl = [],
       productType = ''Technology'', discount = 0, price = 900, variants = [],
       createDate = []\<rparr>,
      \<lparr>displayTitle = ''iPhone 13'', embeddingText = [], url = [], imageUrl = [],
       productType = ''Technology'', discount = 0, price = 1099, variants = [],
       createDate = []\<rparr>]"

text \<open>A serializer that writes the title of a product only.\<close>

definition example_stringify :: "Product \<Rightarrow> string" where
  \<open>example_stringify product = ''{"displayTitle":"'' @ displayTitle product @ ''"}''\<close>

text \<open>Responses of the exchange rate provider that are served whatever the state is.\<close>

definition served :: "'a \<Rightarrow> ('a, unit) fetch" where
  "served body address w = (Inr \<lparr>ok = True, json = Inr body\<rparr>, w)"

definition example_currencies :: "(string \<times> string) list" where
  "example_currencies =
     [(''USD'', ''United States Dollar''), (''EUR'', ''Euro''), (''XTS'', ''Test'')]"

definition example_rates :: "real rates_data" where
  "example_rates = \<lparr>rates = [(''USD'', 1), (''EUR'', 3 / 4), (''XTS'', 0)]\<rparr>"

text \<open>
  Arithmetic on real numbers, for the examples: their numbers and results are numbers
  that doubles represent exactly.
\<close>

definition exact_arithmetic :: "real number_ops" where
  "exact_arithmetic =
     \<lparr>op_divide = (\<lambda>x y. x / y), op_times = (\<lambda>x y. x * y), op_not = (\<lambda>x. x = 0)\<rparr>"



section \<open>Properties\<close>

subsection \<open>The schema builder\<close>

declare string_of_nat.simps [simp del]






















subsection \<open>The rounds of functionCalling\<close>

text \<open>
  Whatever the outcome of the loop over the requested calls, the callbacks invoked are
  those of a prefix of the requests, each once and in the order of the requests.
\<close>

lemma for_tools_trace:
  "for_tools parse callbacks tools st = (res, st') \<Longrightarrow>
     \<exists>as. length as \<le> length tools \<and>
       trace st' = trace st @ map (\<lambda>(t, a). CallbackCall t a) (zip tools as)"
proof (induction tools arbitrary: st)
  case Nil
  then show ?case by simp
next
  case (Cons t ts)
  show ?case
  proof (cases "getCallbackByFunctionName callbacks (function_name t)")
    case (Inl e)
    with Cons.prems have "st' = st" by simp
    then have "length ([]::json list) \<le> length (t # ts) \<and>
       trace st' = trace st @ map (\<lambda>(t, a). CallbackCall t a) (zip (t # ts) [])" by simp
    then show ?thesis by blast
  next
    case cb: (Inr cb)
    show ?thesis
    proof (cases "parse (function_arguments t)")
      case (Inl e)
      with cb Cons.prems have "st' = st" by simp
      then have "length ([]::json list) \<le> length (t # ts) \<and>
         trace st' = trace st @ map (\<lambda>(t, a). CallbackCall t a) (zip (t # ts) [])" by simp
      then show ?thesis by blast
    next
      case a: (Inr a)
      obtain r w where rw: "cb a (world st) = (r, w)" by (cases "cb a (world st)")
      show ?thesis
      proof (cases r)
        case (Inl e)
        with cb a rw Cons.prems
        have "st' = st\<lparr>trace := trace st @ [CallbackCall t a], world := w\<rparr>" by simp
        then have "length [a] \<le> length (t # ts) \<and>
           trace st' = trace st @ map (\<lambda>(t, a). CallbackCall t a) (zip (t # ts) [a])" by simp
        then show ?thesis by blast
      next
        case (Inr functionResult)
        with cb a rw Cons.prems
        have "for_tools parse callbacks ts
                (st\<lparr>messages := messages st @ [ToolMessage functionResult (call_id t)],
                    trace := trace st @ [CallbackCall t a], world := w\<rparr>) = (res, st')"
          by simp
        from Cons.IH [OF this] obtain as where
          "length as \<le> length ts"
          "trace st' = (trace st @ [CallbackCall t a]) @ map (\<lambda>(t, a). CallbackCall t a) (zip ts as)"
          by auto
        then have "length (a # as) \<le> length (t # ts) \<and>
           trace st' = trace st @ map (\<lambda>(t, a). CallbackCall t a) (zip (t # ts) (a # as))" by simp
        then show ?thesis by blast
      qed
    qed
  qed
qed

text \<open>
  When the loop over the requested calls completes, every request was served by the
  callback of its name, on its parsed arguments, in the world the call before it left.
\<close>

lemma for_tools_success:
  "for_tools parse callbacks tools st = (Inr u, st') \<Longrightarrow>
     \<exists>as rs ws. length as = length tools \<and> length rs = length tools
       \<and> length ws = Suc (length tools) \<and> ws ! 0 = world st \<and> ws ! length tools = world st'
       \<and> (\<forall>i < length tools. \<exists>cb.
             getCallbackByFunctionName callbacks (function_name (tools ! i)) = Inr cb
           \<and> parse (function_arguments (tools ! i)) = Inr (as ! i)
           \<and> cb (as ! i) (ws ! i) = (Inr (rs ! i), ws ! Suc i))
       \<and> messages st' = messages st @ map (\<lambda>(r, t). ToolMessage r (call_id t)) (zip rs tools)
       \<and> trace st' = trace st @ map (\<lambda>(t, a). CallbackCall t a) (zip tools as)"
proof (induction tools arbitrary: st)
  case Nil
  then have "st' = st" by simp
  then have "length ([]::json list) = length ([]::tool_call list)
       \<and> length ([]::string list) = length ([]::tool_call list)
       \<and> length [world st] = Suc (length ([]::tool_call list)) \<and> [world st] ! 0 = world st
       \<and> [world st] ! length ([]::tool_call list) = world st'
       \<and> (\<forall>i < length ([]::tool_call list). \<exists>cb.
             getCallbackByFunctionName callbacks (function_name ([] ! i)) = Inr cb
           \<and> parse (function_arguments ([] ! i)) = Inr ([] ! i)
           \<and> cb ([] ! i) ([world st] ! i) = (Inr ([] ! i), [world st] ! Suc i))
       \<and> messages st' = messages st @ map (\<lambda>(r, t). ToolMessage r (call_id t)) (zip [] [])
       \<and> trace st' = trace st @ map (\<lambda>(t, a). CallbackCall t a) (zip [] [])"
    by simp
  then show ?case by blast
next
  case (Cons t ts)
  from Cons.prems obtain cb where
    cb: "getCallbackByFunctionName callbacks (function_name t) = Inr cb"
    by (auto split: sum.splits)
  from Cons.prems cb obtain a where a: "parse (function_arguments t) = Inr a"
    by (auto split: sum.splits)
  from Cons.prems cb a obtain r w where rw: "cb a (world st) = (Inr r, w)"
    by (auto split: sum.splits prod.splits)
  let ?st1 = "st\<lparr>messages := messages st @ [ToolMessage r (call_id t)],
                    trace := trace st @ [CallbackCall t a], world := w\<rparr>"
  from Cons.prems cb a rw have "for_tools parse callbacks ts ?st1 = (Inr u, st')" by simp
  from Cons.IH [OF this] obtain as rs ws where ih:
    "length as = length ts" "length rs = length ts" "length ws = Suc (length ts)"
    "ws ! 0 = w" "ws ! length ts = world st'"
    "\<forall>i < length ts. \<exists>cb.
        getCallbackByFunctionName callbacks (function_name (ts ! i)) = Inr cb
      \<and> parse (function_arguments (ts ! i)) = Inr (as ! i)
      \<and> cb (as ! i) (ws ! i) = (Inr (rs ! i), ws ! Suc i)"
    "messages st' = (messages st @ [ToolMessage r (call_id t)])
        @ map (\<lambda>(r, t). ToolMessage r (call_id t)) (zip rs ts)"
    "trace st' = (trace st @ [CallbackCall t a]) @ map (\<lambda>(t, a). CallbackCall t a) (zip ts as)"
    by auto
  have "length (a # as) = length (t # ts) \<and> length (r # rs) = length (t # ts)
       \<and> length (world st # ws) = Suc (length (t # ts)) \<and> (world st # ws) ! 0 = world st
       \<and> (world st # ws) ! length (t # ts) = world st'
       \<and> (\<forall>i < length (t # ts). \<exists>cb.
             getCallbackByFunctionName callbacks (function_name ((t # ts) ! i)) = Inr cb
           \<and> parse (function_arguments ((t # ts) ! i)) = Inr ((a # as) ! i)
           \<and> cb ((a # as) ! i) ((world st # ws) ! i) = (Inr ((r # rs) ! i), (world st # ws) ! Suc i))
       \<and> messages st' = messages st
            @ map (\<lambda>(r, t). ToolMessage r (call_id t)) (zip (r # rs) (t # ts))
       \<and> trace st' = trace st @ map (\<lambda>(t, a). CallbackCall t a) (zip (t # ts) (a # as))"
    using ih cb a rw by (simp add: All_less_Suc2)
  then show ?case by blast
qed

lemma for_tools_append:
  "for_tools parse callbacks (pre @ rest) st =
     (case for_tools parse callbacks pre st of
        (Inl e, st') \<Rightarrow> (Inl e, st')
      | (Inr u, st') \<Rightarrow> for_tools parse callbacks rest st')"
  by (induction pre arbitrary: st) (auto split: sum.splits prod.splits)

text \<open>A successful lookup yields the callback of the first tool of that name.\<close>

lemma getCallbackByFunctionName_Inr:
  "getCallbackByFunctionName callbacks functionName = Inr cb \<longleftrightarrow>
     (\<exists>entry. find (\<lambda>e. NPLFunction.name e = functionName) callbacks = Some entry
        \<and> cb = callback entry)"
  by (auto simp: getCallbackByFunctionName_def split: option.splits)

lemma list_of_length_two: "length xs = Suc (Suc 0) \<Longrightarrow> xs = [xs ! 0, xs ! Suc 0]"
  by (auto simp: length_Suc_conv)

lemma while_body_tools:
  assumes "tool_calls (choice_message c) = Some tools"
  shows "while_body parse create callbacks c st =
     (case for_tools parse callbacks tools
             (st\<lparr>messages := messages st @ [AssistantMessage (choice_message c)]\<rparr>) of
        (Inl e, st2) \<Rightarrow> (Inl e, st2)
      | (Inr u, st2) \<Rightarrow>
          (case create (messages st2 @ [nudge callbacks]) (Some (functions_schema callbacks))
                  (world st2) of
             (r, w) \<Rightarrow>
               (r, st2\<lparr>messages := messages st2 @ [nudge callbacks],
                       trace := trace st2 @ [CompletionCall (messages st2 @ [nudge callbacks])
                                               (Some (functions_schema callbacks))],
                       world := w\<rparr>)))"
  using assms by (simp add: while_body_def Let_def split: sum.splits prod.splits)

text \<open>
  C3. In a round whose assistant message requests the calls \<open>tools\<close>: whatever the
  outcome, the events of the round are the invocations of the callbacks of a prefix of
  \<open>tools\<close>, each once and in the order of the requests, followed by the next completion
  call only when every request was served. When the round ends with the next response,
  every request \<open>tools ! i\<close> was served by the callback of the first tool of the registry
  that has its name, on its parsed arguments, in the world \<open>ws ! i\<close> that the call before
  it left; the messages appended are the assistant message, one tool message for each
  request in request order, with the result of its callback and its \<open>tool_call_id\<close>,
  and then the one system message of the nudge; and the next completion call is issued
  last, with these messages.
\<close>

theorem tool_calls_round:
  assumes "tool_calls (choice_message c) = Some tools"
      and "while_body parse create callbacks c st = (res, st')"
  shows "(\<exists>as. length as \<le> length tools \<and>
            (trace st' = trace st @ map (\<lambda>(t, a). CallbackCall t a) (zip tools as)
             \<or> length as = length tools
               \<and> trace st' = trace st @ map (\<lambda>(t, a). CallbackCall t a) (zip tools as)
                    @ [CompletionCall (messages st') (Some (functions_schema callbacks))]))
       \<and> (\<forall>llmResponse'. res = Inr llmResponse' \<longrightarrow>
            (\<exists>as rs ws. length as = length tools \<and> length rs = length tools
               \<and> length ws = Suc (length tools) \<and> ws ! 0 = world st
               \<and> (\<forall>i < length tools. \<exists>entry.
                     find (\<lambda>e. NPLFunction.name e = function_name (tools ! i)) callbacks
                       = Some entry
                   \<and> parse (function_arguments (tools ! i)) = Inr (as ! i)
                   \<and> callback entry (as ! i) (ws ! i) = (Inr (rs ! i), ws ! Suc i))
               \<and> messages st' = messages st @ [AssistantMessage (choice_message c)]
                    @ map (\<lambda>(r, t). ToolMessage r (call_id t)) (zip rs tools)
                    @ [SystemMessage
                         (''Don't ask the user, always do if there is some function list ''
                            @ functionList callbacks)]
               \<and> trace st' = trace st @ map (\<lambda>(t, a). CallbackCall t a) (zip tools as)
                    @ [CompletionCall (messages st') (Some (functions_schema callbacks))]
               \<and> create (messages st') (Some (functions_schema callbacks)) (ws ! length tools)
                    = (Inr llmResponse', world st')))"
proof -
  let ?st1 = "st\<lparr>messages := messages st @ [AssistantMessage (choice_message c)]\<rparr>"
  obtain r1 st2 where ft: "for_tools parse callbacks tools ?st1 = (r1, st2)"
    by (cases "for_tools parse callbacks tools ?st1")
  show ?thesis
  proof (cases r1)
    case (Inl e)
    with ft assms have out: "res = Inl e" "st' = st2"
      by (simp_all add: while_body_tools)
    from for_tools_trace [OF ft] obtain as where
      "length as \<le> length tools"
      "trace st2 = trace st @ map (\<lambda>(t, a). CallbackCall t a) (zip tools as)"
      by auto
    with out show ?thesis by auto
  next
    case (Inr u)
    obtain r w where cr: "create (messages st2 @ [nudge callbacks])
        (Some (functions_schema callbacks)) (world st2) = (r, w)"
      by (cases "create (messages st2 @ [nudge callbacks])
        (Some (functions_schema callbacks)) (world st2)")
    from Inr ft cr assms have out: "res = r"
      "st' = st2\<lparr>messages := messages st2 @ [nudge callbacks],
                  trace := trace st2 @ [CompletionCall (messages st2 @ [nudge callbacks])
                                          (Some (functions_schema callbacks))],
                  world := w\<rparr>"
      by (simp_all add: while_body_tools)
    from ft Inr have "for_tools parse callbacks tools ?st1 = (Inr u, st2)" by simp
    from for_tools_success [OF this] obtain as rs ws where s:
      "length as = length tools" "length rs = length tools"
      "length ws = Suc (length tools)" "ws ! 0 = world st" "ws ! length tools = world st2"
      "\<forall>i < length tools. \<exists>cb.
          getCallbackByFunctionName callbacks (function_name (tools ! i)) = Inr cb
        \<and> parse (function_arguments (tools ! i)) = Inr (as ! i)
        \<and> cb (as ! i) (ws ! i) = (Inr (rs ! i), ws ! Suc i)"
      "messages st2 = (messages st @ [AssistantMessage (choice_message c)])
          @ map (\<lambda>(r, t). ToolMessage r (call_id t)) (zip rs tools)"
      "trace st2 = trace st @ map (\<lambda>(t, a). CallbackCall t a) (zip tools as)"
      by auto
    have served: "\<exists>entry.
          find (\<lambda>e. NPLFunction.name e = function_name (tools ! i)) callbacks = Some entry
        \<and> parse (function_arguments (tools ! i)) = Inr (as ! i)
        \<and> callback entry (as ! i) (ws ! i) = (Inr (rs ! i), ws ! Suc i)"
      if "i < length tools" for i
    proof -
      from s(6) that obtain cb where
        "getCallbackByFunctionName callbacks (function_name (tools ! i)) = Inr cb"
        "parse (function_arguments (tools ! i)) = Inr (as ! i)"
        "cb (as ! i) (ws ! i) = (Inr (rs ! i), ws ! Suc i)"
        by blast
      then show ?thesis by (auto simp: getCallbackByFunctionName_Inr)
    qed
    have m: "messages st' = messages st @ [AssistantMessage (choice_message c)]
                    @ map (\<lambda>(r, t). ToolMessage r (call_id t)) (zip rs tools)
                    @ [SystemMessage
                         (''Don't ask the user, always do if there is some function list ''
                            @ functionList callbacks)]"
      using out(2) s(7) by (simp add: nudge_def)
    have t: "trace st' = trace st @ map (\<lambda>(t, a). CallbackCall t a) (zip tools as)
                    @ [CompletionCall (messages st') (Some (functions_schema callbacks))]"
      using out(2) s(8) by simp
    have c: "create (messages st') (Some (functions_schema callbacks)) (ws ! length tools)
               = (res, world st')"
      using out cr s(5) by simp
    have first: "\<exists>as. length as \<le> length tools \<and>
            (trace st' = trace st @ map (\<lambda>(t, a). CallbackCall t a) (zip tools as)
             \<or> length as = length tools
               \<and> trace st' = trace st @ map (\<lambda>(t, a). CallbackCall t a) (zip tools as)
                    @ [CompletionCall (messages st') (Some (functions_schema callbacks))])"
      using s(1) t by (intro exI [of _ as]) simp
    have second: "\<exists>as rs ws. length as = length tools \<and> length rs = length tools
               \<and> length ws = Suc (length tools) \<and> ws ! 0 = world st
               \<and> (\<forall>i < length tools. \<exists>entry.
                     find (\<lambda>e. NPLFunction.name e = function_name (tools ! i)) callbacks
                       = Some entry
                   \<and> parse (function_arguments (tools ! i)) = Inr (as ! i)
                   \<and> callback entry (as ! i) (ws ! i) = (Inr (rs ! i), ws ! Suc i))
               \<and> messages st' = messages st @ [AssistantMessage (choice_message c)]
                    @ map (\<lambda>(r, t). ToolMessage r (call_id t)) (zip rs tools)
                    @ [SystemMessage
                         (''Don't ask the user, always do if there is some function list ''
                            @ functionList callbacks)]
               \<and> trace st' = trace st @ map (\<lambda>(t, a). CallbackCall t a) (zip tools as)
                    @ [CompletionCall (messages st') (Some (functions_schema callbacks))]
               \<and> create (messages st') (Some (functions_schema callbacks)) (ws ! length tools)
                    = (Inr llmResponse', world st')"
      if "res = Inr llmResponse'" for llmResponse'
      using s(1-4) served m t c that
      by (intro exI [of _ as] exI [of _ rs] exI [of _ ws]) simp
    from first second show ?thesis by blast
  qed
qed

lemma example_round_response:
  "fst example_round = Inr [text_choice ''The watch costs 90 Euros'']"
  by (simp add: example_round_def while_body_def two_calls_choice_def two_calls_def
      example_registry_def convertCurrencies_tool_def searchProducts_tool_def
      getCallbackByFunctionName_def example_parse_def scripted_def example_script_def
      example_run_def Let_def)

lemma example_round_world: "world (snd example_round) = 2"
  by (simp add: example_round_def while_body_def two_calls_choice_def two_calls_def
      example_registry_def convertCurrencies_tool_def searchProducts_tool_def
      getCallbackByFunctionName_def example_parse_def scripted_def example_script_def
      example_run_def Let_def)

lemma digit_chars: "char_of (49::nat) = CHR ''1''" "char_of (50::nat) = CHR ''2''"
  by code_simp+

lemma functionList_example_registry:
  "functionList example_registry
     = ''1. convertCurrencies(amount, from, to) 2. searchProducts(name)''"
  by (simp add: functionList_def example_registry_def convertCurrencies_tool_def
      searchProducts_tool_def string_of_nat.simps digit_chars)

theorem tool_calls_round_witness:
  "tool_calls (choice_message two_calls_choice) = Some two_calls
   \<and> fst example_round = Inr [text_choice ''The watch costs 90 Euros'']
   \<and> messages (snd example_round) =
        messages example_run
        @ [AssistantMessage (choice_message two_calls_choice),
           ToolMessage ''[null]'' ''call_1'',
           ToolMessage ''0.025'' ''call_2'',
           SystemMessage ''Don't ask the user, always do if there is some function list 1. convertCurrencies(amount, from, to) 2. searchProducts(name)'']
   \<and> trace (snd example_round) =
        trace example_run
        @ [CallbackCall (ToolCall ''call_1'' ''searchProducts'' ''{}'') (JObject []),
           CallbackCall (ToolCall ''call_2'' ''convertCurrencies'' ''{}'') (JObject []),
           CompletionCall (messages (snd example_round))
             (Some (functions_schema example_registry))]
   \<and> world (snd example_round) = 2"
proof -
  have h1: "tool_calls (choice_message two_calls_choice) = Some two_calls"
    by (simp add: two_calls_choice_def)
  have h2: "while_body example_parse (scripted example_script) example_registry two_calls_choice
       example_run = (fst example_round, snd example_round)"
    by (simp add: example_round_def)
  from tool_calls_round [OF h1 h2] example_round_response
  obtain as rs ws where s:
    "length as = length two_calls" "length rs = length two_calls"
    "\<forall>i < length two_calls. \<exists>entry.
        find (\<lambda>e. NPLFunction.name e = function_name (two_calls ! i)) example_registry
          = Some entry
      \<and> example_parse (function_arguments (two_calls ! i)) = Inr (as ! i)
      \<and> callback entry (as ! i) (ws ! i) = (Inr (rs ! i), ws ! Suc i)"
    "messages (snd example_round) =
       messages example_run @ [AssistantMessage (choice_message two_calls_choice)]
       @ map (\<lambda>(r, t). ToolMessage r (call_id t)) (zip rs two_calls)
       @ [SystemMessage
            (''Don't ask the user, always do if there is some function list ''
               @ functionList example_registry)]"
    "trace (snd example_round) =
       trace example_run @ map (\<lambda>(t, a). CallbackCall t a) (zip two_calls as)
       @ [CompletionCall (messages (snd example_round))
            (Some (functions_schema example_registry))]"
    by blast
  have len: "length two_calls = Suc (Suc 0)" by (simp add: two_calls_def)
  from s(3) have "\<exists>entry.
        find (\<lambda>e. NPLFunction.name e = function_name (two_calls ! 0)) example_registry
          = Some entry
      \<and> example_parse (function_arguments (two_calls ! 0)) = Inr (as ! 0)
      \<and> callback entry (as ! 0) (ws ! 0) = (Inr (rs ! 0), ws ! Suc 0)"
    by (simp add: len)
  then have first: "as ! 0 = JObject []" "rs ! 0 = ''[null]''"
    by (auto simp: two_calls_def example_registry_def convertCurrencies_tool_def
        searchProducts_tool_def example_parse_def)
  from s(3) have "\<exists>entry.
        find (\<lambda>e. NPLFunction.name e = function_name (two_calls ! Suc 0)) example_registry
          = Some entry
      \<and> example_parse (function_arguments (two_calls ! Suc 0)) = Inr (as ! Suc 0)
      \<and> callback entry (as ! Suc 0) (ws ! Suc 0) = (Inr (rs ! Suc 0), ws ! Suc (Suc 0))"
    by (simp add: len)
  then have second: "as ! Suc 0 = JObject []" "rs ! Suc 0 = ''0.025''"
    by (auto simp: two_calls_def example_registry_def convertCurrencies_tool_def
        searchProducts_tool_def example_parse_def)
  have as: "as = [JObject [], JObject []]"
    using list_of_length_two [of as] s(1) len first(1) second(1) by simp
  have rs: "rs = [''[null]'', ''0.025'']"
    using list_of_length_two [of rs] s(2) len first(2) second(2) by simp
  have m: "messages (snd example_round) =
        messages example_run
        @ [AssistantMessage (choice_message two_calls_choice),
           ToolMessage ''[null]'' ''call_1'',
           ToolMessage ''0.025'' ''call_2'',
           SystemMessage ''Don't ask the user, always do if there is some function list 1. convertCurrencies(amount, from, to) 2. searchProducts(name)'']"
    unfolding s(4) rs by (simp add: two_calls_def functionList_example_registry)
  have t: "trace (snd example_round) =
        trace example_run
        @ [CallbackCall (ToolCall ''call_1'' ''searchProducts'' ''{}'') (JObject []),
           CallbackCall (ToolCall ''call_2'' ''convertCurrencies'' ''{}'') (JObject []),
           CompletionCall (messages (snd example_round))
             (Some (functions_schema example_registry))]"
    using s(5) unfolding as by (simp add: two_calls_def)
  from h1 example_round_response m t example_round_world show ?thesis by blast
qed

subsection \<open>Runs of functionCalling\<close>

text \<open>
  The run from the first completion call on is the run continued from the loop, and a
  round that ends with the next response continues with that response.
\<close>

lemma functionCalling_first:
  "functionCalling parse create fuel input callbacks w =
     (case create (initial_messages input callbacks) (Some (functions_schema callbacks)) w of
        (r, w1) \<Rightarrow>
          (case r of
             Inl e \<Rightarrow>
               Some (Inl (BadRequestException (''Function calling error: '' @ message e)),
                 \<lparr>messages = initial_messages input callbacks,
                  trace = [CompletionCall (initial_messages input callbacks)
                             (Some (functions_schema callbacks))],
                  world = w1\<rparr>)
           | Inr llmResponse \<Rightarrow>
               functionCalling_from parse create fuel input callbacks llmResponse
                 \<lparr>messages = initial_messages input callbacks,
                  trace = [CompletionCall (initial_messages input callbacks)
                             (Some (functions_schema callbacks))],
                  world = w1\<rparr>))"
  by (simp add: functionCalling_def functionCalling_try_def functionCalling_from_def
      catch_functionCalling_def Let_def split: prod.splits sum.splits)

lemma functionCalling_from_round:
  assumes "finish_reason c = ''tool_calls''"
      and "while_body parse create callbacks c st = (Inr llmResponse', st')"
  shows "functionCalling_from parse create (Suc fuel) input callbacks (c # cs) st =
           functionCalling_from parse create fuel input callbacks llmResponse' st'"
  using assms by (simp add: functionCalling_from_def try_from_def)

lemma functionCalling_from_failed_round:
  assumes "finish_reason c = ''tool_calls''"
      and "while_body parse create callbacks c st = (Inl e, st')"
  shows "functionCalling_from parse create (Suc fuel) input callbacks (c # cs) st =
           Some (Inl (BadRequestException (''Function calling error: '' @ message e)), st')"
  using assms by (simp add: functionCalling_from_def try_from_def catch_functionCalling_def)

text \<open>
  C4. When the top choice of the first completion has a stop reason other than
  \<open>tool_calls\<close>, the run ends (with any fuel above zero) after exactly two completion
  calls and no callback invocation: the first completion call, and the finalization
  completion call, without tools, on the two messages built from the input and the
  content of that top choice. The world of the run is the one the finalization
  completion left, no message is appended, and the result of the run is the result of
  the finalization completion: its text trimmed, \<open>undefined\<close> when it has no choice, the
  one error \<open>Function calling error: ...\<close> when it was rejected or its content is null.
\<close>

theorem no_tool_calls_run:
  assumes "create (initial_messages input callbacks) (Some (functions_schema callbacks)) w
             = (Inr (c # cs), w1)"
      and "finish_reason c \<noteq> ''tool_calls''"
      and \<open>create
             [UserMessage input,
              SystemMessage (''A user asks: "'' @ input @ ''". The result was: ''
                @ template_string (content (choice_message c))
                @ ''. Formulate a final response.'')]
             None w1 = (fin, w2)\<close>
  shows \<open>\<exists>res. functionCalling parse create (Suc fuel) input callbacks w =
           Some (res,
             \<lparr>messages = initial_messages input callbacks,
              trace = [CompletionCall (initial_messages input callbacks)
                         (Some (functions_schema callbacks)),
                       CompletionCall
                         [UserMessage input,
                          SystemMessage (''A user asks: "'' @ input @ ''". The result was: ''
                            @ template_string (content (choice_message c))
                            @ ''. Formulate a final response.'')]
                         None],
              world = w2\<rparr>)
         \<and> (\<forall>e. fin = Inl e \<longrightarrow>
                res = Inl (BadRequestException (''Function calling error: '' @ message e)))
         \<and> (fin = Inr [] \<longrightarrow> res = Inr None)
         \<and> (\<forall>f fs s. fin = Inr (f # fs) \<and> content (choice_message f) = Some s \<longrightarrow>
                res = Inr (Some (trim s)))
         \<and> (\<forall>f fs. fin = Inr (f # fs) \<and> content (choice_message f) = None \<longrightarrow>
                (\<exists>m. res = Inl (BadRequestException (''Function calling error: '' @ m))))\<close>
proof -
  let ?final = \<open>[UserMessage input,
      SystemMessage (''A user asks: "'' @ input @ ''". The result was: ''
        @ template_string (content (choice_message c)) @ ''. Formulate a final response.'')]\<close>
  let ?st = "\<lparr>messages = initial_messages input callbacks,
              trace = [CompletionCall (initial_messages input callbacks)
                         (Some (functions_schema callbacks))],
              world = w1\<rparr>"
  let ?r = "case fin of
              Inl e \<Rightarrow> Inl e
            | Inr finalResponse \<Rightarrow>
                (case finalResponse of
                   [] \<Rightarrow> Inr None
                 | f # fs \<Rightarrow>
                     (case content (choice_message f) of
                        None \<Rightarrow> Inl (TypeError ''Cannot read properties of null (reading 'trim')'')
                      | Some s \<Rightarrow> Inr (Some (trim s))))"
  have fm: "finalMessage input (content (choice_message c)) = ?final"
    by (simp add: finalMessage_def)
  have a3: "create (finalMessage input (content (choice_message c))) None w1 = (fin, w2)"
    using assms(3) by (simp add: finalMessage_def)
  have "finalize create input (c # cs) ?st
          = (?r, ?st\<lparr>trace := trace ?st
                     @ [CompletionCall (finalMessage input (content (choice_message c))) None],
                   world := w2\<rparr>)"
    by (simp add: finalize_def a3 Let_def split: sum.splits list.splits option.splits)
  then have run: "functionCalling parse create (Suc fuel) input callbacks w =
      Some (catch_functionCalling ?r,
        \<lparr>messages = initial_messages input callbacks,
         trace = [CompletionCall (initial_messages input callbacks)
                    (Some (functions_schema callbacks)),
                  CompletionCall ?final None],
         world = w2\<rparr>)"
    using assms(1,2)
    by (simp add: functionCalling_def functionCalling_try_def try_from_def fm)
  have 1: "\<forall>e. fin = Inl e \<longrightarrow>
      catch_functionCalling ?r
        = Inl (BadRequestException (''Function calling error: '' @ message e))"
    by (simp add: catch_functionCalling_def)
  have 2: "fin = Inr [] \<longrightarrow> catch_functionCalling ?r = Inr None"
    by (simp add: catch_functionCalling_def)
  have 3: "\<forall>f fs s. fin = Inr (f # fs) \<and> content (choice_message f) = Some s \<longrightarrow>
      catch_functionCalling ?r = Inr (Some (trim s))"
    by (simp add: catch_functionCalling_def)
  have 4: "\<forall>f fs. fin = Inr (f # fs) \<and> content (choice_message f) = None \<longrightarrow>
      (\<exists>m. catch_functionCalling ?r
             = Inl (BadRequestException (''Function calling error: '' @ m)))"
    by (simp add: catch_functionCalling_def)
  from run 1 2 3 4 show ?thesis by blast
qed

theorem no_tool_calls_run_witness:
  \<open>functionCalling example_parse
      (scripted [[text_choice ''Hello!''], [text_choice '' Hi there. '']]) (Suc 0) ''hello''
      example_registry 0 =
     Some (Inr (Some ''Hi there.''),
       \<lparr>messages = initial_messages ''hello'' example_registry,
        trace = [CompletionCall (initial_messages ''hello'' example_registry)
                   (Some (functions_schema example_registry)),
                 CompletionCall
                   [UserMessage ''hello'',
                    SystemMessage ''A user asks: "hello". The result was: Hello!. Formulate a final response.'']
                   None],
        world = 2\<rparr>)\<close>
proof -
  let ?create = "scripted [[text_choice ''Hello!''], [text_choice '' Hi there. '']]"
  have h1: "?create (initial_messages ''hello'' example_registry)
     (Some (functions_schema example_registry)) 0 = (Inr (text_choice ''Hello!'' # []), 1)"
    by (simp add: scripted_def)
  have h2: "finish_reason (text_choice ''Hello!'') \<noteq> ''tool_calls''"
    by (simp add: text_choice_def)
  have h3: \<open>?create
       [UserMessage ''hello'',
        SystemMessage (''A user asks: "'' @ ''hello'' @ ''". The result was: ''
          @ template_string (content (choice_message (text_choice ''Hello!'')))
          @ ''. Formulate a final response.'')]
       None 1 = (Inr [text_choice '' Hi there. ''], 2)\<close>
    by (simp add: scripted_def)
  note inst = no_tool_calls_run
    [where create = ?create and input = "''hello''" and callbacks = example_registry
       and w = 0 and c = "text_choice ''Hello!''" and cs = "[]" and ?w1.0 = 1
       and fin = "Inr [text_choice '' Hi there. '']" and ?w2.0 = 2
       and parse = example_parse and fuel = 0, OF h1 h2 h3]
  from inst have \<open>\<exists>res.
     functionCalling example_parse ?create (Suc 0) ''hello'' example_registry 0 =
       Some (res,
         \<lparr>messages = initial_messages ''hello'' example_registry,
          trace = [CompletionCall (initial_messages ''hello'' example_registry)
                     (Some (functions_schema example_registry)),
                   CompletionCall
                     [UserMessage ''hello'',
                      SystemMessage (''A user asks: "'' @ ''hello'' @ ''". The result was: ''
                        @ template_string (content (choice_message (text_choice ''Hello!'')))
                        @ ''. Formulate a final response.'')]
                     None],
          world = 2\<rparr>)
     \<and> res = Inr (Some (trim '' Hi there. ''))\<close>
    by (elim exE conjE) (simp add: text_choice_def)
  then show ?thesis
    by (simp add: trim_def is_white_space_def text_choice_def)
qed

text \<open>
  C5. In a round whose assistant message requests a tool \<open>t\<close> whose name is not in the
  registry, after the requests \<open>pre\<close> and before the requests \<open>post\<close>: the run ends in
  this round with the one error \<open>Function calling error: ...\<close>, whatever follows in the
  fuel; the only events of the round are callback invocations for a prefix of \<open>pre\<close>, so
  no completion call is issued and no request after \<open>t\<close> is served. When the requests
  before \<open>t\<close> were all served, the message attached is \<open>Function ... not found\<close>. And
  every error of a run is the error of the \<open>try\<close> block with its message attached to
  \<open>Function calling error: \<close>, no answer being returned with it.
\<close>

theorem unknown_tool_fails_run:
  assumes "finish_reason c = ''tool_calls''"
      and "tool_calls (choice_message c) = Some (pre @ t # post)"
      and "find (\<lambda>cb. NPLFunction.name cb = function_name t) callbacks = None"
  shows "(\<exists>m st' as.
            functionCalling_from parse create (Suc fuel) input callbacks (c # cs) st =
              Some (Inl (BadRequestException (''Function calling error: '' @ m)), st')
          \<and> length as \<le> length pre
          \<and> trace st' = trace st @ map (\<lambda>(t, a). CallbackCall t a) (zip pre as))
       \<and> (\<forall>st2.
            for_tools parse callbacks pre
              (st\<lparr>messages := messages st @ [AssistantMessage (choice_message c)]\<rparr>)
              = (Inr (), st2) \<longrightarrow>
            functionCalling_from parse create (Suc fuel) input callbacks (c # cs) st =
              Some (Inl (BadRequestException
                     (''Function calling error: Function '' @ function_name t @ '' not found'')),
                    st2))
       \<and> (\<forall>fuel' input' w e st'.
            functionCalling parse create fuel' input' callbacks w = Some (Inl e, st') \<longrightarrow>
            (\<exists>e'. functionCalling_try parse create fuel' input' callbacks w = Some (Inl e', st')
                \<and> e = BadRequestException (''Function calling error: '' @ message e')))"
proof (intro conjI allI impI)
  let ?st1 = "st\<lparr>messages := messages st @ [AssistantMessage (choice_message c)]\<rparr>"
  let ?nf = "BadRequestException (''Function '' @ function_name t @ '' not found'')"
  have unknown: "for_tools parse callbacks (t # post) s = (Inl ?nf, s)" for s
    using assms(3) by (simp add: getCallbackByFunctionName_def)
  obtain r1 st2 where pre: "for_tools parse callbacks pre ?st1 = (r1, st2)"
    by (cases "for_tools parse callbacks pre ?st1")
  from for_tools_trace [OF pre] obtain as where as:
    "length as \<le> length pre"
    "trace st2 = trace st @ map (\<lambda>(t, a). CallbackCall t a) (zip pre as)"
    by auto
  have "\<exists>e. for_tools parse callbacks (pre @ t # post) ?st1 = (Inl e, st2)"
    using pre unknown by (cases r1) (simp_all add: for_tools_append)
  then obtain e where "for_tools parse callbacks (pre @ t # post) ?st1 = (Inl e, st2)" ..
  then have "while_body parse create callbacks c st = (Inl e, st2)"
    using assms(2) by (simp add: while_body_tools)
  from functionCalling_from_failed_round [OF assms(1) this]
  have "functionCalling_from parse create (Suc fuel) input callbacks (c # cs) st =
          Some (Inl (BadRequestException (''Function calling error: '' @ message e)), st2)" .
  with as show "\<exists>m st' as.
            functionCalling_from parse create (Suc fuel) input callbacks (c # cs) st =
              Some (Inl (BadRequestException (''Function calling error: '' @ m)), st')
          \<and> length as \<le> length pre
          \<and> trace st' = trace st @ map (\<lambda>(t, a). CallbackCall t a) (zip pre as)"
    by blast
next
  fix st2
  let ?st1 = "st\<lparr>messages := messages st @ [AssistantMessage (choice_message c)]\<rparr>"
  let ?nf = "BadRequestException (''Function '' @ function_name t @ '' not found'')"
  assume pre: "for_tools parse callbacks pre ?st1 = (Inr (), st2)"
  have "for_tools parse callbacks (t # post) st2 = (Inl ?nf, st2)"
    using assms(3) by (simp add: getCallbackByFunctionName_def)
  with pre have "for_tools parse callbacks (pre @ t # post) ?st1 = (Inl ?nf, st2)"
    by (simp add: for_tools_append)
  then have "while_body parse create callbacks c st = (Inl ?nf, st2)"
    using assms(2) by (simp add: while_body_tools)
  from functionCalling_from_failed_round [OF assms(1) this]
  show "functionCalling_from parse create (Suc fuel) input callbacks (c # cs) st =
              Some (Inl (BadRequestException
                     (''Function calling error: Function '' @ function_name t @ '' not found'')),
                    st2)"
    by simp
next
  fix fuel' input' w e st'
  assume "functionCalling parse create fuel' input' callbacks w = Some (Inl e, st')"
  then obtain r where r: "functionCalling_try parse create fuel' input' callbacks w = Some (r, st')"
    "catch_functionCalling r = Inl e"
    by (auto simp: functionCalling_def)
  from r(2) obtain e' where "r = Inl e'"
    "e = BadRequestException (''Function calling error: '' @ message e')"
    by (cases r) (auto simp: catch_functionCalling_def)
  with r(1) show "\<exists>e'. functionCalling_try parse create fuel' input' callbacks w = Some (Inl e', st')
                \<and> e = BadRequestException (''Function calling error: '' @ message e')"
    by blast
qed

theorem unknown_tool_fails_run_witness:
  "finish_reason unknown_call_choice = ''tool_calls''
   \<and> find (\<lambda>cb. NPLFunction.name cb = ''deleteProducts'') example_registry = None
   \<and> functionCalling_from example_parse (scripted example_script) (Suc 0)
        ''How much is a watch in Euros?'' example_registry [unknown_call_choice] example_run =
       Some (Inl (BadRequestException
                   ''Function calling error: Function deleteProducts not found''),
             \<lparr>messages = messages example_run
                 @ [AssistantMessage (choice_message unknown_call_choice),
                    ToolMessage ''[null]'' ''call_1''],
              trace = trace example_run
                 @ [CallbackCall (ToolCall ''call_1'' ''searchProducts'' ''{}'') (JObject [])],
              world = 1\<rparr>)"
proof -
  let ?t = "ToolCall ''call_2'' ''deleteProducts'' ''{}''"
  have h1: "finish_reason unknown_call_choice = ''tool_calls''"
    by (simp add: unknown_call_choice_def)
  have h2: "tool_calls (choice_message unknown_call_choice) =
     Some ([ToolCall ''call_1'' ''searchProducts'' ''{}''] @ ?t
             # [ToolCall ''call_3'' ''convertCurrencies'' ''{}''])"
    by (simp add: unknown_call_choice_def)
  have h3: "find (\<lambda>cb. NPLFunction.name cb = function_name ?t) example_registry = None"
    by (simp add: example_registry_def convertCurrencies_tool_def searchProducts_tool_def)
  have pre: "for_tools example_parse example_registry [ToolCall ''call_1'' ''searchProducts'' ''{}'']
      (example_run\<lparr>messages := messages example_run
         @ [AssistantMessage (choice_message unknown_call_choice)]\<rparr>)
      = (Inr (),
         \<lparr>messages = messages example_run
                 @ [AssistantMessage (choice_message unknown_call_choice),
                    ToolMessage ''[null]'' ''call_1''],
              trace = trace example_run
                 @ [CallbackCall (ToolCall ''call_1'' ''searchProducts'' ''{}'') (JObject [])],
              world = 1\<rparr>)"
    by (simp add: example_registry_def convertCurrencies_tool_def searchProducts_tool_def
        getCallbackByFunctionName_def example_parse_def example_run_def)
  from unknown_tool_fails_run [OF h1 h2 h3, of example_parse "scripted example_script" 0
      "''How much is a watch in Euros?''" "[]" example_run] pre
  have "functionCalling_from example_parse (scripted example_script) (Suc 0)
        ''How much is a watch in Euros?'' example_registry [unknown_call_choice] example_run =
       Some (Inl (BadRequestException
                   (''Function calling error: Function '' @ function_name ?t @ '' not found'')),
             \<lparr>messages = messages example_run
                 @ [AssistantMessage (choice_message unknown_call_choice),
                    ToolMessage ''[null]'' ''call_1''],
              trace = trace example_run
                 @ [CallbackCall (ToolCall ''call_1'' ''searchProducts'' ''{}'') (JObject [])],
              world = 1\<rparr>)"
    by blast
  with h1 h3 show ?thesis by simp
qed

text \<open>
  C8. When the first completion succeeds and the loop ends with a response whose top
  choice is \<open>c\<close>, the run issues the finalization completion last, without tools and with
  exactly two messages, whatever the messages accumulated in the state are: the user
  message with the input, and the system message built from the input and the content
  of the assistant message of \<open>c\<close>. When the top choice of the finalization completion
  has the text \<open>s\<close>, the run returns \<open>s\<close> trimmed.
\<close>

theorem finalization_context:
  assumes "create (initial_messages input callbacks) (Some (functions_schema callbacks)) w
             = (Inr llmResponse, w1)"
      and "while_tool_calls parse create callbacks fuel llmResponse
             \<lparr>messages = initial_messages input callbacks,
              trace = [CompletionCall (initial_messages input callbacks)
                         (Some (functions_schema callbacks))],
              world = w1\<rparr> = Some (Inr (c # cs), st)"
      and \<open>create
             [UserMessage input,
              SystemMessage (''A user asks: "'' @ input @ ''". The result was: ''
                @ template_string (content (choice_message c))
                @ ''. Formulate a final response.'')]
             None (world st) = (fin, w2)\<close>
  shows \<open>\<exists>res. functionCalling parse create fuel input callbacks w =
           Some (res,
             st\<lparr>trace := trace st
                   @ [CompletionCall
                        [UserMessage input,
                         SystemMessage (''A user asks: "'' @ input @ ''". The result was: ''
                           @ template_string (content (choice_message c))
                           @ ''. Formulate a final response.'')]
                        None],
                world := w2\<rparr>)
         \<and> (\<forall>f fs s. fin = Inr (f # fs) \<and> content (choice_message f) = Some s \<longrightarrow>
                res = Inr (Some (trim s)))\<close>
  using assms
  by (auto simp: functionCalling_def functionCalling_try_def try_from_def finalize_def
      finalMessage_def catch_functionCalling_def Let_def
      split: sum.splits list.splits option.splits)

theorem finalization_context_witness:
  \<open>scripted example_script (initial_messages ''How much is a watch in Euros?'' example_registry)
     (Some (functions_schema example_registry)) 0 = (Inr [two_calls_choice], 1)
   \<and> while_tool_calls example_parse (scripted example_script) example_registry (Suc (Suc 0))
        [two_calls_choice] example_run
        = Some (Inr [text_choice ''The watch costs 90 Euros''], snd example_round)
   \<and> functionCalling example_parse (scripted example_script) (Suc (Suc 0))
        ''How much is a watch in Euros?'' example_registry 0 =
       Some (Inr (Some ''It costs 90 Euros.''),
             (snd example_round)\<lparr>trace := trace (snd example_round)
                @ [CompletionCall
                     [UserMessage ''How much is a watch in Euros?'',
                      SystemMessage ''A user asks: "How much is a watch in Euros?". The result was: The watch costs 90 Euros. Formulate a final response.'']
                     None],
              world := 3\<rparr>)\<close>
proof -
  let ?Q = "''How much is a watch in Euros?''"
  let ?final = \<open>[UserMessage ?Q,
      SystemMessage (''A user asks: "'' @ ?Q @ ''". The result was: ''
        @ template_string (content (choice_message (text_choice ''The watch costs 90 Euros'')))
        @ ''. Formulate a final response.'')]\<close>
  have h1: "scripted example_script (initial_messages ?Q example_registry)
     (Some (functions_schema example_registry)) 0 = (Inr [two_calls_choice], 1)"
    by (simp add: scripted_def example_script_def)
  have round: "while_body example_parse (scripted example_script) example_registry
      two_calls_choice example_run
      = (Inr [text_choice ''The watch costs 90 Euros''], snd example_round)"
    using example_round_response by (simp add: example_round_def prod_eq_iff)
  have h2: "while_tool_calls example_parse (scripted example_script) example_registry
      (Suc (Suc 0)) [two_calls_choice]
      \<lparr>messages = initial_messages ?Q example_registry,
       trace = [CompletionCall (initial_messages ?Q example_registry)
                  (Some (functions_schema example_registry))],
       world = 1\<rparr>
      = Some (Inr (text_choice ''The watch costs 90 Euros'' # []), snd example_round)"
    using round by (simp add: two_calls_choice_def text_choice_def example_run_def)
  have h3: "scripted example_script ?final None (world (snd example_round))
      = (Inr [text_choice ''  It costs 90 Euros. ''], 3)"
    by (simp add: example_round_world scripted_def example_script_def)
  from finalization_context [OF h1 h2 h3] obtain res where res:
    "functionCalling example_parse (scripted example_script) (Suc (Suc 0)) ?Q example_registry 0 =
       Some (res, (snd example_round)\<lparr>trace := trace (snd example_round)
                @ [CompletionCall ?final None], world := 3\<rparr>)"
    "\<forall>f fs s. Inr [text_choice ''  It costs 90 Euros. ''] = Inr (f # fs)
        \<and> content (choice_message f) = Some s \<longrightarrow> res = Inr (Some (trim s))"
    by blast
  from res(2) have "res = Inr (Some (trim ''  It costs 90 Euros. ''))"
    by (simp add: text_choice_def)
  then have "res = Inr (Some ''It costs 90 Euros.'')"
    by (simp add: trim_def is_white_space_def)
  with res(1) h1 h2 show ?thesis
    by (simp add: example_run_def text_choice_def)
qed

subsection \<open>searchItems\<close>

lemma integer_of_isInteger: "isInteger v \<Longrightarrow> JNumber (of_int (integer_of v)) = v"
  by (cases v) (auto elim: Ints_cases)

lemma validateResponseFormat_cases:
  "validateResponseFormat parse (Some text) =
     (case parse text of
        Inr (JArray xs) \<Rightarrow>
          if list_all isInteger xs then Inr (map integer_of xs)
          else Inl (BadRequestException (''Invalid response format from search: '' @ text))
      | _ \<Rightarrow> Inl (BadRequestException (''Invalid response format from search: '' @ text)))"
  by (simp add: validateResponseFormat_def validateResponseFormat_try_def
      split: sum.splits json.splits)

text \<open>
  C6. For a completion whose top choice has the text \<open>text\<close>: when the text parses as an
  array whose every element is an integer, \<open>searchItems\<close> returns these integers, in
  order; in every other case (the text does not parse, the value is not an array, an
  element is not an integer) it returns the empty list, and no failure.
\<close>

theorem searchItems_validation:
  assumes "create (search_messages searchTerm items constraints) None w = (Inr (c # cs), w')"
      and "content (choice_message c) = Some text"
  shows "(\<forall>xs. parse text = Inr (JArray xs) \<and> list_all isInteger xs \<longrightarrow>
            searchItems parse create searchTerm items constraints w = (map integer_of xs, w')
          \<and> map (\<lambda>i. JNumber (of_int i)) (map integer_of xs) = xs)
       \<and> (\<not> (\<exists>xs. parse text = Inr (JArray xs) \<and> list_all isInteger xs) \<longrightarrow>
            searchItems parse create searchTerm items constraints w = ([], w'))"
proof (intro conjI allI impI)
  fix xs
  assume a: "parse text = Inr (JArray xs) \<and> list_all isInteger xs"
  with assms show "searchItems parse create searchTerm items constraints w = (map integer_of xs, w')"
    by (simp add: searchItems_def validateResponseFormat_cases)
  from a have "\<forall>v \<in> set xs. JNumber (of_int (integer_of v)) = v"
    by (simp add: list_all_iff integer_of_isInteger)
  then show "map (\<lambda>i. JNumber (of_int i)) (map integer_of xs) = xs"
    by (simp add: map_idI)
next
  assume "\<not> (\<exists>xs. parse text = Inr (JArray xs) \<and> list_all isInteger xs)"
  with assms show "searchItems parse create searchTerm items constraints w = ([], w')"
    by (auto simp: searchItems_def validateResponseFormat_cases split: sum.splits json.splits)
qed

theorem searchItems_validation_witness:
  "searchItems example_parse (scripted [[text_choice ''[2, 7]'']]) ''phone''
     [''iPhone 12'', ''iPhone 13''] ''Must select 2 items.'' 0 = ([2, 7], 1)
   \<and> searchItems example_parse (scripted [[text_choice ''[1.5]'']]) ''phone''
       [''iPhone 12'', ''iPhone 13''] ''Must select 2 items.'' 0 = ([], 1)
   \<and> searchItems example_parse (scripted [[text_choice ''Items 2 and 7'']]) ''phone''
       [''iPhone 12'', ''iPhone 13''] ''Must select 2 items.'' 0 = ([], 1)"
proof -
  let ?msgs = "search_messages ''phone'' [''iPhone 12'', ''iPhone 13''] ''Must select 2 items.''"
  have c: "content (choice_message (text_choice s)) = Some s" for s
    by (simp add: text_choice_def)
  have a1: "scripted [[text_choice ''[2, 7]'']] ?msgs None 0
              = (Inr (text_choice ''[2, 7]'' # []), 1)"
    by (simp add: scripted_def)
  have a2: "example_parse ''[2, 7]'' = Inr (JArray [JNumber 2, JNumber 7])
              \<and> list_all isInteger [JNumber 2, JNumber 7]"
    by (simp add: example_parse_def)
  from searchItems_validation
    [where create = "scripted [[text_choice ''[2, 7]'']]" and parse = example_parse, OF a1 c]
    a2
  have r1: "searchItems example_parse (scripted [[text_choice ''[2, 7]'']]) ''phone''
     [''iPhone 12'', ''iPhone 13''] ''Must select 2 items.'' 0
       = (map integer_of [JNumber 2, JNumber 7], 1)"
    by blast
  have b1: "scripted [[text_choice ''[1.5]'']] ?msgs None 0
              = (Inr (text_choice ''[1.5]'' # []), 1)"
    by (simp add: scripted_def)
  have b2: "\<not> (\<exists>xs. example_parse ''[1.5]'' = Inr (JArray xs) \<and> list_all isInteger xs)"
    by (simp add: example_parse_def)
  from searchItems_validation
    [where create = "scripted [[text_choice ''[1.5]'']]" and parse = example_parse, OF b1 c]
    b2
  have r2: "searchItems example_parse (scripted [[text_choice ''[1.5]'']]) ''phone''
     [''iPhone 12'', ''iPhone 13''] ''Must select 2 items.'' 0 = ([], 1)"
    by blast
  have c1: "scripted [[text_choice ''Items 2 and 7'']] ?msgs None 0
              = (Inr (text_choice ''Items 2 and 7'' # []), 1)"
    by (simp add: scripted_def)
  have c2: "\<not> (\<exists>xs. example_parse ''Items 2 and 7'' = Inr (JArray xs) \<and> list_all isInteger xs)"
    by (simp add: example_parse_def)
  from searchItems_validation
    [where create = "scripted [[text_choice ''Items 2 and 7'']]" and parse = example_parse, OF c1 c]
    c2
  have r3: "searchItems example_parse (scripted [[text_choice ''Items 2 and 7'']]) ''phone''
     [''iPhone 12'', ''iPhone 13''] ''Must select 2 items.'' 0 = ([], 1)"
    by blast
  from r1 r2 r3 show ?thesis by simp
qed

subsection \<open>searchByName\<close>

text \<open>
  C7. With the catalog of two products and a model that answers \<open>[]\<close>, the search finds
  nothing, and \<open>searchByName\<close> ends with a \<open>BadRequestException\<close>: the
  \<open>NotFoundException\<close> thrown in the \<open>try\<close> block is caught by the \<open>catch\<close> clause of
  the same method and only its message survives.
\<close>

theorem searchByName_not_found_rewrapped:
  "searchByName example_parse (scripted [[text_choice ''[]'']]) example_stringify
     example_products ''umbrella'' 0
   = (Inl (BadRequestException ''Unable to search products: No products found for: umbrella''), 1)"
  by (simp add: searchByName_def searchByName_try_def searchItems_def scripted_def
      text_choice_def validateResponseFormat_def validateResponseFormat_try_def
      example_parse_def Let_def)

text \<open>
  C9. When \<open>searchItems\<close> returns a non-empty list of indices, \<open>searchByName\<close> returns
  no error but the text of an array with one element for each index, in order: the
  product at position \<open>index - 1\<close> when \<open>1 \<le> index \<le> N\<close>, and \<open>null\<close> for every other
  index, zero and negative ones included.
\<close>

theorem searchByName_unchecked_indices:
  assumes "searchItems parse create productName (map displayTitle products)
             ''Must select 2 items.'' w = (indices, w')"
      and "indices \<noteq> []"
  shows "searchByName parse create stringify_object products productName w =
           (Inr (''['' @ join '',''
                   (map (\<lambda>index.
                      if 1 \<le> index \<and> index \<le> int (length products)
                      then stringify_object (products ! nat (index - 1)) else ''null'') indices)
                 @ '']''), w')"
proof -
  have "(case array_get products (index - 1) of None \<Rightarrow> ''null''
          | Some v \<Rightarrow> stringify_object v)
        = (if 1 \<le> index \<and> index \<le> int (length products)
           then stringify_object (products ! nat (index - 1)) else ''null'')" for index
    by (simp add: array_get_def)
  then show ?thesis
    using assms
    by (simp add: searchByName_def searchByName_try_def JSON_stringify_def Let_def comp_def)
qed

lemma example_search:
  "searchItems example_parse (scripted [[text_choice ''[2, 7]'']]) ''iPhone''
     (map displayTitle example_products) ''Must select 2 items.'' 0 = ([2, 7], 1)"
  by (simp add: searchItems_def scripted_def text_choice_def validateResponseFormat_def
      validateResponseFormat_try_def example_parse_def)

theorem searchByName_unchecked_indices_witness:
  \<open>searchItems example_parse (scripted [[text_choice ''[2, 7]'']]) ''iPhone''
     (map displayTitle example_products) ''Must select 2 items.'' 0 = ([2, 7], 1)
   \<and> searchByName example_parse (scripted [[text_choice ''[2, 7]'']]) example_stringify
       example_products ''iPhone'' 0 = (Inr ''[{"displayTitle":"iPhone 13"},null]'', 1)\<close>
proof -
  have ne: "[2, 7] \<noteq> ([] :: int list)" by simp
  from searchByName_unchecked_indices [OF example_search ne, of example_stringify]
  have \<open>searchByName example_parse (scripted [[text_choice ''[2, 7]'']]) example_stringify
       example_products ''iPhone'' 0 = (Inr ''[{"displayTitle":"iPhone 13"},null]'', 1)\<close>
    by (simp add: example_products_def example_stringify_def)
  with example_search show ?thesis by blast
qed

subsection \<open>CurrencyService.convert\<close>




text \<open>
  A code that is the name of an inherited member passes both tests without being an
  entry of either table, and the call returns \<open>NaN\<close> instead of failing.
\<close>

lemma convert_inherited_code:
  "map_of example_currencies ''toString'' = None
   \<and> map_of (rates example_rates) ''toString'' = None
   \<and> convert exact_arithmetic (served example_currencies) (served example_rates)
        ''https://openexchangerates.org/api'' ''id'' 100 ''toString'' ''USD'' ()
      = (Inr NaN, ())"
  by (simp add: convert_def served_def example_currencies_def example_rates_def
      get_property_def Object_prototype_keys_def exact_arithmetic_def)




end
